theory Spec2Isabelle
  imports Complex_Main "HOL-Library.Word" "HOL-Library.Signed_Division"
begin

unbundle bit_operations_syntax

section \<open>The BMP180 driver (drivers/i2c/bmp180\_driver.go)\<close>

subsection \<open>Go's basic types\<close>

text \<open>
  Go's fixed-width integers are words of that width. A word carries no sign: where Go's
  type is signed the model uses the signed operations (\<open>sint\<close>, \<open>scast\<close>,
  \<open>signed_drop_bit\<close>, truncating division on \<open>sint\<close>), where it is unsigned the
  unsigned ones (\<open>uint\<close>, \<open>ucast\<close>, \<open>drop_bit\<close>, \<open>div\<close>). Go's \<open>uint\<close> is taken
  at 64 bits; \<open>time.Duration\<close> is an \<open>int64\<close> of nanoseconds.
\<close>

type_synonym byte = "8 word"
type_synonym int16 = "16 word"
type_synonym uint16 = "16 word"
type_synonym int32 = "32 word"
type_synonym uint32 = "32 word"
type_synonym uint = "64 word"
type_synonym Duration = "64 word"

definition Millisecond :: Duration where
  "Millisecond = 1000000"

text \<open>A run-time panic of Go ends the goroutine (and the program); it is a value here.\<close>

datatype panic = DivideByZero | IndexOutOfRange

text \<open>The \<open>error\<close> values of this file all come from the connection; they are opaque.\<close>

datatype error = Error string

text \<open>
  Integer division of Go: truncated towards zero, a panic on a zero divisor, and the
  quotient of the most negative value by \<open>-1\<close> wraps around to itself.
\<close>

definition div_int32 :: "int32 \<Rightarrow> int32 \<Rightarrow> panic + int32" where
  "div_int32 a b = (if b = 0 then Inl DivideByZero else Inr (word_of_int (sint a sdiv sint b)))"

definition div_uint32 :: "uint32 \<Rightarrow> uint32 \<Rightarrow> panic + uint32" where
  "div_uint32 a b = (if b = 0 then Inl DivideByZero else Inr (a div b))"

subsection \<open>float32\<close>

text \<open>
  A finite \<open>float32\<close> is \<open>Float32 m e\<close>, of value \<open>m * 2 ^ e\<close>. The driver makes a
  \<open>float32\<close> in two ways only: by converting an \<open>int32\<close>, and by dividing such a
  value by the constant 10. Both round to the nearest value with a 24-bit significand,
  ties to even. The magnitudes that arise lie between 1/10 and \<open>2 ^ 31\<close> (or are 0), so
  neither overflow nor the subnormal range is reached and neither is modelled.
\<close>

datatype float32 = Float32 (mantissa: int) (exponent: int)

definition float32_value :: "float32 \<Rightarrow> rat" where
  "float32_value x =
     (if 0 \<le> exponent x then of_int (mantissa x * 2 ^ nat (exponent x))
      else of_int (mantissa x) / of_int (2 ^ nat (- exponent x)))"

fun bit_length :: "nat \<Rightarrow> nat" where
  "bit_length n = (if n = 0 then 0 else Suc (bit_length (n div 2)))"

declare bit_length.simps [simp del]

text \<open>\<open>round_half_even p q\<close> is the integer nearest to \<open>p / q\<close>, for \<open>0 \<le> p\<close> and \<open>0 < q\<close>.\<close>

definition round_half_even :: "int \<Rightarrow> int \<Rightarrow> int" where
  "round_half_even p q =
     (let f = p div q; r = p mod q
      in if 2 * r < q then f else if q < 2 * r then f + 1 else if even f then f else f + 1)"

text \<open>
  \<open>float32_round p q\<close> is the \<open>float32\<close> nearest to \<open>p / q\<close>, for \<open>0 < q\<close>: with \<open>k\<close> the
  integer such that \<open>2 ^ k \<le> |p / q| < 2 ^ (k + 1)\<close>, the quotient is scaled by
  \<open>2 ^ (23 - k)\<close> and rounded to an integer.
\<close>

definition float32_round :: "int \<Rightarrow> int \<Rightarrow> float32" where
  "float32_round p q =
     (if p = 0 then Float32 0 0
      else let a = \<bar>p\<bar>;
               k = (if q \<le> a then int (bit_length (nat (a div q))) - 1
                    else - int (bit_length (nat ((q - 1) div a))));
               e = k - 23;
               m = (if 0 \<le> e then round_half_even a (q * 2 ^ nat e)
                    else round_half_even (a * 2 ^ nat (- e)) q)
           in Float32 (sgn p * m) e)"

definition float32_of_int32 :: "int32 \<Rightarrow> float32" where
  "float32_of_int32 x = float32_round (sint x) 1"

definition float32_of_const :: "int \<Rightarrow> float32" where
  "float32_of_const n = float32_round n 1"

definition float32_div :: "float32 \<Rightarrow> float32 \<Rightarrow> float32" where
  "float32_div x y =
     float32_round (sgn (mantissa y) * mantissa x * 2 ^ nat (exponent x - exponent y))
                   (\<bar>mantissa y\<bar> * 2 ^ nat (exponent y - exponent x))"

subsection \<open>The connection and the effects of the driver\<close>

text \<open>
  The driver talks to an \<open>I2c\<close> connection (an interface of the package), sleeps and
  publishes errors through its \<open>Eventer\<close>. The effects are recorded, in order, in a
  trace. A connection is given by what each call returns after a given trace, so that
  any deterministic device, also one that fails at some point, is an instance.
\<close>

datatype event =
    EvStart int
  | EvWrite int "byte list"
  | EvRead int nat
  | EvSleep Duration
  | EvPublish error

record I2c =
  I2cStart_result :: "event list \<Rightarrow> int \<Rightarrow> error option"
  I2cWrite_result :: "event list \<Rightarrow> int \<Rightarrow> byte list \<Rightarrow> error option"
  I2cRead_result :: "event list \<Rightarrow> int \<Rightarrow> nat \<Rightarrow> error + byte list"

definition I2cStart :: "I2c \<Rightarrow> int \<Rightarrow> event list \<Rightarrow> error option \<times> event list" where
  "I2cStart c address tr = (I2cStart_result c tr address, tr @ [EvStart address])"

definition I2cWrite :: "I2c \<Rightarrow> int \<Rightarrow> byte list \<Rightarrow> event list \<Rightarrow> error option \<times> event list" where
  "I2cWrite c address bs tr = (I2cWrite_result c tr address bs, tr @ [EvWrite address bs])"

definition I2cRead :: "I2c \<Rightarrow> int \<Rightarrow> nat \<Rightarrow> event list \<Rightarrow> (error + byte list) \<times> event list" where
  "I2cRead c address n tr = (I2cRead_result c tr address n, tr @ [EvRead address n])"

definition Sleep :: "Duration \<Rightarrow> event list \<Rightarrow> event list" where
  "Sleep t tr = tr @ [EvSleep t]"

text \<open>
  \<open>d.Publish(d.Event(Error), err)\<close>: the event name \<open>Error\<close> and the \<open>Eventer\<close> are
  declared outside this file; the trace keeps the published error.
\<close>

definition Publish :: "error \<Rightarrow> event list \<Rightarrow> event list" where
  "Publish e tr = tr @ [EvPublish e]"

subsection \<open>Constants and data\<close>

definition bmp180Address :: int where "bmp180Address = 0x77"
definition bmp180RegisterAC1MSB :: byte where "bmp180RegisterAC1MSB = 0xAA"
definition bmp180RegisterCtl :: byte where "bmp180RegisterCtl = 0xF4"
definition bmp180CmdTemp :: byte where "bmp180CmdTemp = 0x2E"
definition bmp180RegisterTempMSB :: byte where "bmp180RegisterTempMSB = 0xF6"
definition bmp180CmdPressure :: byte where "bmp180CmdPressure = 0x34"
definition bmp180RegisterPressureMSB :: byte where "bmp180RegisterPressureMSB = 0xF6"

text \<open>\<open>type BMP180OversamplingMode uint\<close>, with four named values.\<close>

type_synonym BMP180OversamplingMode = uint

definition BMP180UltraLowPower :: BMP180OversamplingMode where "BMP180UltraLowPower = 0"
definition BMP180Standard :: BMP180OversamplingMode where "BMP180Standard = 1"
definition BMP180HighResolution :: BMP180OversamplingMode where "BMP180HighResolution = 2"
definition BMP180UltraHighResolution :: BMP180OversamplingMode where "BMP180UltraHighResolution = 3"

record calibrationCoefficients =
  ac1 :: int16
  ac2 :: int16
  ac3 :: int16
  ac4 :: uint16
  ac5 :: uint16
  ac6 :: uint16
  b1 :: int16
  b2 :: int16
  mb :: int16
  mc :: int16
  md :: int16

record BMP180Driver =
  name :: string
  connection :: I2c
  interval :: Duration
  Pressure :: float32
  Temperature :: float32
  mode :: BMP180OversamplingMode
  calibrationCoefficients :: calibrationCoefficients

text \<open>The zero value of the coefficients' struct, as \<open>&calibrationCoefficients{}\<close> makes it.\<close>

definition zeroCoefficients :: calibrationCoefficients where
  "zeroCoefficients =
     \<lparr>ac1 = 0, ac2 = 0, ac3 = 0, ac4 = 0, ac5 = 0, ac6 = 0, b1 = 0, b2 = 0, mb = 0, mc = 0, md = 0\<rparr>"

text \<open>\<open>NewBMP180Driver(c, mode, i...)\<close>: the variadic \<open>i\<close> is a list.\<close>

definition NewBMP180Driver :: "I2c \<Rightarrow> BMP180OversamplingMode \<Rightarrow> Duration list \<Rightarrow> BMP180Driver" where
  "NewBMP180Driver c m i =
     (let d = \<lparr>name = ''BMP180'', connection = c, interval = 10 * Millisecond,
                Pressure = Float32 0 0, Temperature = Float32 0 0, mode = m,
                calibrationCoefficients = zeroCoefficients\<rparr>
      in if 0 < length i then d\<lparr>interval := hd i\<rparr> else d)"

definition Name :: "BMP180Driver \<Rightarrow> string" where
  "Name d = name d"

definition SetName :: "BMP180Driver \<Rightarrow> string \<Rightarrow> BMP180Driver" where
  "SetName d n = d\<lparr>name := n\<rparr>"

definition Mode :: "BMP180Driver \<Rightarrow> BMP180OversamplingMode" where
  "Mode d = mode d"

definition SetMode :: "BMP180Driver \<Rightarrow> BMP180OversamplingMode \<Rightarrow> BMP180Driver" where
  "SetMode d m = d\<lparr>mode := m\<rparr>"

subsection \<open>The compensation engine\<close>

definition calculateB5 :: "BMP180Driver \<Rightarrow> int16 \<Rightarrow> panic + int32" where
  "calculateB5 d rawTemp =
     (let c = calibrationCoefficients d;
          x1 = signed_drop_bit 15 ((scast rawTemp - ucast (ac6 c)) * ucast (ac5 c))
      in case div_int32 (push_bit 11 (scast (mc c))) (x1 + scast (md c)) of
           Inl p \<Rightarrow> Inl p
         | Inr x2 \<Rightarrow> Inr (x1 + x2))"

definition calculateTemp :: "BMP180Driver \<Rightarrow> int16 \<Rightarrow> panic + float32" where
  "calculateTemp d rawTemp =
     (case calculateB5 d rawTemp of
        Inl p \<Rightarrow> Inl p
      | Inr b5 \<Rightarrow>
          (let t = signed_drop_bit 4 (b5 + 8)
           in Inr (float32_div (float32_of_int32 t) (float32_of_const 10))))"

definition calculatePressure :: "BMP180Driver \<Rightarrow> int16 \<Rightarrow> int32 \<Rightarrow> panic + float32" where
  "calculatePressure d rawTemp rawPressure =
     (case calculateB5 d rawTemp of
        Inl p \<Rightarrow> Inl p
      | Inr b5 \<Rightarrow>
          (let c = calibrationCoefficients d;
               s = unat (mode d);
               b6 = b5 - 4000;
               x1 = signed_drop_bit 11 (scast (b2 c) * signed_drop_bit 12 (b6 * b6));
               x2 = signed_drop_bit 11 (scast (ac2 c) * b6);
               x3 = x1 + x2;
               b3 = signed_drop_bit 2 (push_bit s (scast (ac1 c) * 4 + x3) + 2);
               x1 = signed_drop_bit 13 (scast (ac3 c) * b6);
               x2 = signed_drop_bit 16 (scast (b1 c) * signed_drop_bit 12 (b6 * b6));
               x3 = signed_drop_bit 2 ((x1 + x2) + 2);
               b4 = drop_bit 15 (ucast (ac4 c) * (x3 + 32768));
               b7 = (rawPressure - b3) * drop_bit s 50000
           in case (if b7 < 0x80000000 then div_uint32 (push_bit 1 b7) b4
                    else map_sum id (push_bit 1) (div_uint32 b7 b4)) of
                Inl p \<Rightarrow> Inl p
              | Inr p \<Rightarrow>
                  (let x1 = signed_drop_bit 8 p * signed_drop_bit 8 p;
                       x1 = signed_drop_bit 16 (x1 * 3038);
                       x2 = signed_drop_bit 16 (- 7357 * p)
                   in Inr (float32_of_int32 (p + signed_drop_bit 4 (x1 + x2 + 3791))))))"

subsection \<open>Reading from the device\<close>

text \<open>
  \<open>binary.Read(buf, binary.BigEndian, &v)\<close> for a 16-bit \<open>v\<close> on a \<open>bytes.Buffer\<close>:
  two bytes are taken from the buffer and \<open>v\<close> becomes \<open>x[1] | x[0] << 8\<close>. With fewer
  than two bytes left the buffer is drained, \<open>v\<close> keeps its value and an error is
  returned (which the driver never looks at).
\<close>

fun binary_Read16 :: "byte list \<Rightarrow> 16 word \<Rightarrow> 16 word \<times> byte list \<times> error option" where
  "binary_Read16 (x0 # x1 # rest) v = (ucast x1 OR push_bit 8 (ucast x0), rest, None)"
| "binary_Read16 [x0] v = (v, [], Some (Error ''unexpected EOF''))"
| "binary_Read16 [] v = (v, [], Some (Error ''EOF''))"

definition read :: "BMP180Driver \<Rightarrow> byte \<Rightarrow> nat \<Rightarrow> event list \<Rightarrow> (error + byte list) \<times> event list" where
  "read d address n tr =
     (case I2cWrite (connection d) bmp180Address [address] tr of
        (Some err, tr1) \<Rightarrow> (Inl err, tr1)
      | (None, tr1) \<Rightarrow>
          (case I2cRead (connection d) bmp180Address n tr1 of
             (Inl err, tr2) \<Rightarrow> (Inl err, tr2)
           | (Inr ret, tr2) \<Rightarrow> (Inr ret, tr2)))"

definition initialization :: "BMP180Driver \<Rightarrow> event list \<Rightarrow> error option \<times> BMP180Driver \<times> event list" where
  "initialization d tr =
     (case I2cStart (connection d) bmp180Address tr of
        (Some err, tr1) \<Rightarrow> (Some err, d, tr1)
      | (None, tr1) \<Rightarrow>
          (case read d bmp180RegisterAC1MSB 22 tr1 of
             (Inl err, tr2) \<Rightarrow> (Some err, d, tr2)
           | (Inr coefficients, tr2) \<Rightarrow>
               (let c = calibrationCoefficients d;
                    buf = coefficients;
                    (v, buf, _) = binary_Read16 buf (ac1 c); c = c\<lparr>ac1 := v\<rparr>;
                    (v, buf, _) = binary_Read16 buf (ac2 c); c = c\<lparr>ac2 := v\<rparr>;
                    (v, buf, _) = binary_Read16 buf (ac3 c); c = c\<lparr>ac3 := v\<rparr>;
                    (v, buf, _) = binary_Read16 buf (ac4 c); c = c\<lparr>ac4 := v\<rparr>;
                    (v, buf, _) = binary_Read16 buf (ac5 c); c = c\<lparr>ac5 := v\<rparr>;
                    (v, buf, _) = binary_Read16 buf (ac6 c); c = c\<lparr>ac6 := v\<rparr>;
                    (v, buf, _) = binary_Read16 buf (b1 c); c = c\<lparr>b1 := v\<rparr>;
                    (v, buf, _) = binary_Read16 buf (b2 c); c = c\<lparr>b2 := v\<rparr>;
                    (v, buf, _) = binary_Read16 buf (mb c); c = c\<lparr>mb := v\<rparr>;
                    (v, buf, _) = binary_Read16 buf (mc c); c = c\<lparr>mc := v\<rparr>;
                    (v, buf, _) = binary_Read16 buf (md c); c = c\<lparr>md := v\<rparr>
                in (None, d\<lparr>calibrationCoefficients := c\<rparr>, tr2))))"

definition rawTemp :: "BMP180Driver \<Rightarrow> event list \<Rightarrow> (error + int16) \<times> event list" where
  "rawTemp d tr =
     (case I2cWrite (connection d) bmp180Address [bmp180RegisterCtl, bmp180CmdTemp] tr of
        (Some err, tr1) \<Rightarrow> (Inl err, tr1)
      | (None, tr1) \<Rightarrow>
          (let tr2 = Sleep (5 * Millisecond) tr1
           in case read d bmp180RegisterTempMSB 2 tr2 of
                (Inl err, tr3) \<Rightarrow> (Inl err, tr3)
              | (Inr ret, tr3) \<Rightarrow>
                  (let (v, _, _) = binary_Read16 ret 0
                   in (Inr v, tr3))))"

text \<open>
  In \<open>rawPressure\<close> the three bytes are indexed: a shorter reply is a panic. A
  \<open>switch\<close> without a matching case does nothing.
\<close>

definition rawPressure :: "BMP180Driver \<Rightarrow> event list \<Rightarrow> (panic + (error + int32)) \<times> event list" where
  "rawPressure d tr =
     (case I2cWrite (connection d) bmp180Address
             [bmp180RegisterCtl, bmp180CmdPressure + ucast (push_bit 6 (mode d))] tr of
        (Some err, tr1) \<Rightarrow> (Inr (Inl err), tr1)
      | (None, tr1) \<Rightarrow>
          (let tr2 = (if mode d = BMP180UltraLowPower then Sleep (5 * Millisecond) tr1
                      else if mode d = BMP180Standard then Sleep (8 * Millisecond) tr1
                      else if mode d = BMP180HighResolution then Sleep (14 * Millisecond) tr1
                      else if mode d = BMP180UltraHighResolution then Sleep (26 * Millisecond) tr1
                      else tr1)
           in case read d bmp180RegisterPressureMSB 3 tr2 of
                (Inl err, tr3) \<Rightarrow> (Inr (Inl err), tr3)
              | (Inr ret, tr3) \<Rightarrow>
                  (if length ret < 3 then (Inl IndexOutOfRange, tr3)
                   else (Inr (Inr (signed_drop_bit (unat (8 - mode d))
                           (push_bit 16 (ucast (ret ! 0)) + push_bit 8 (ucast (ret ! 1))
                              + ucast (ret ! 2)))), tr3))))"

subsection \<open>Start and the polling goroutine\<close>

text \<open>
  One turn of the \<open>for\<close> loop of the goroutine. \<open>continue\<close> ends the turn at once. A
  panic of the arithmetic ends the goroutine.
\<close>

definition cycle :: "BMP180Driver \<Rightarrow> event list \<Rightarrow> panic + BMP180Driver \<times> event list" where
  "cycle d tr =
     (case rawTemp d tr of
        (Inl err, tr1) \<Rightarrow> Inr (d, Publish err tr1)
      | (Inr rt, tr1) \<Rightarrow>
          (case calculateTemp d rt of
             Inl p \<Rightarrow> Inl p
           | Inr t \<Rightarrow>
               (let d = d\<lparr>Temperature := t\<rparr>
                in case rawPressure d tr1 of
                     (Inl p, tr2) \<Rightarrow> Inl p
                   | (Inr (Inl err), tr2) \<Rightarrow> Inr (d, Publish err tr2)
                   | (Inr (Inr rp), tr2) \<Rightarrow>
                       (case calculatePressure d rt rp of
                          Inl p \<Rightarrow> Inl p
                        | Inr pr \<Rightarrow> Inr (d\<lparr>Pressure := pr\<rparr>, Sleep (interval d) tr2)))))"

text \<open>The loop has no exit; \<open>cycles n\<close> is its first \<open>n\<close> turns.\<close>

fun cycles :: "nat \<Rightarrow> BMP180Driver \<Rightarrow> event list \<Rightarrow> panic + BMP180Driver \<times> event list" where
  "cycles 0 d tr = Inr (d, tr)"
| "cycles (Suc n) d tr =
     (case cycle d tr of
        Inl p \<Rightarrow> Inl p
      | Inr (d', tr') \<Rightarrow> cycles n d' tr')"

text \<open>
  \<open>Start\<close> returns the error of \<open>initialization\<close>, or launches the goroutine and
  returns \<open>nil\<close>; the last component tells whether the goroutine was launched.
\<close>

definition Start :: "BMP180Driver \<Rightarrow> event list \<Rightarrow> error option \<times> BMP180Driver \<times> event list \<times> bool" where
  "Start d tr =
     (case initialization d tr of
        (Some err, d', tr') \<Rightarrow> (Some err, d', tr', False)
      | (None, d', tr') \<Rightarrow> (None, d', tr', True))"

text \<open>
  The device \<open>n\<close> turns of the goroutine after \<open>Start\<close>: without a goroutine nothing
  runs after \<open>Start\<close> has returned.
\<close>

definition after_Start :: "nat \<Rightarrow> BMP180Driver \<Rightarrow> event list \<Rightarrow> panic + BMP180Driver \<times> event list" where
  "after_Start n d tr =
     (case Start d tr of
        (_, d', tr', launched) \<Rightarrow> if launched then cycles n d' tr' else Inr (d', tr'))"

definition Halt :: "BMP180Driver \<Rightarrow> error option" where
  "Halt d = None"

subsection \<open>The compensation algorithm as the specification words it\<close>

text \<open>
  Section 4.3 of the specification, on mathematical integers: every signed 32-bit
  result is brought back into \<open>[- 2 ^ 31, 2 ^ 31)\<close>, every unsigned one into
  \<open>[0, 2 ^ 32)\<close>, a sign-extending right shift by \<open>n\<close> is the floor of the quotient by
  \<open>2 ^ n\<close>, and division truncates towards zero. The calibration values are read
  with the signedness of section 3. The floating value of the result is the
  \<open>float32\<close> of the code.
\<close>

definition spec_wrap_int32 :: "int \<Rightarrow> int" where
  "spec_wrap_int32 x = (x + 2 ^ 31) mod 2 ^ 32 - 2 ^ 31"

definition spec_wrap_uint32 :: "int \<Rightarrow> int" where
  "spec_wrap_uint32 x = x mod 2 ^ 32"

definition spec_asr :: "int \<Rightarrow> nat \<Rightarrow> int" where
  "spec_asr x n = x div 2 ^ n"

definition spec_trunc_div :: "int \<Rightarrow> int \<Rightarrow> int" where
  "spec_trunc_div a b = sgn a * sgn b * (\<bar>a\<bar> div \<bar>b\<bar>)"

datatype OversamplingMode = UltraLowPower | Standard | HighResolution | UltraHighResolution

fun shiftAmount :: "OversamplingMode \<Rightarrow> nat" where
  "shiftAmount UltraLowPower = 0"
| "shiftAmount Standard = 1"
| "shiftAmount HighResolution = 2"
| "shiftAmount UltraHighResolution = 3"

text \<open>The settle time, in milliseconds.\<close>

fun settleTime :: "OversamplingMode \<Rightarrow> nat" where
  "settleTime UltraLowPower = 5"
| "settleTime Standard = 8"
| "settleTime HighResolution = 14"
| "settleTime UltraHighResolution = 26"

text \<open>The value of the driver's mode type for each mode of the specification.\<close>

fun mode_value :: "OversamplingMode \<Rightarrow> BMP180OversamplingMode" where
  "mode_value UltraLowPower = BMP180UltraLowPower"
| "mode_value Standard = BMP180Standard"
| "mode_value HighResolution = BMP180HighResolution"
| "mode_value UltraHighResolution = BMP180UltraHighResolution"

text \<open>Step 1: \<open>X1\<close>, the divisor \<open>X1 + md\<close> and \<open>B5\<close>.\<close>

definition spec_X1 :: "calibrationCoefficients \<Rightarrow> int \<Rightarrow> int" where
  "spec_X1 c rt = spec_asr (spec_wrap_int32 (spec_wrap_int32 (rt - uint (ac6 c)) * uint (ac5 c))) 15"

definition spec_divisor1 :: "calibrationCoefficients \<Rightarrow> int \<Rightarrow> int" where
  "spec_divisor1 c rt = spec_wrap_int32 (spec_X1 c rt + sint (md c))"

definition spec_B5 :: "calibrationCoefficients \<Rightarrow> int \<Rightarrow> int" where
  "spec_B5 c rt =
     (let X1 = spec_X1 c rt;
          X2 = spec_wrap_int32 (spec_trunc_div (spec_wrap_int32 (sint (mc c) * 2 ^ 11)) (spec_divisor1 c rt))
      in spec_wrap_int32 (X1 + X2))"

text \<open>Step 2.\<close>

definition spec_Temperature :: "calibrationCoefficients \<Rightarrow> int \<Rightarrow> float32" where
  "spec_Temperature c rt =
     float32_div (float32_round (spec_asr (spec_wrap_int32 (spec_B5 c rt + 8)) 4) 1)
       (float32_of_const 10)"

text \<open>Steps 3 to 5.\<close>

definition spec_B6 :: "calibrationCoefficients \<Rightarrow> int \<Rightarrow> int" where
  "spec_B6 c rt = spec_wrap_int32 (spec_B5 c rt - 4000)"

definition spec_B3 :: "calibrationCoefficients \<Rightarrow> nat \<Rightarrow> int \<Rightarrow> int" where
  "spec_B3 c s rt =
     (let B6 = spec_B6 c rt;
          X1 = spec_asr (spec_wrap_int32 (sint (b2 c) * spec_asr (spec_wrap_int32 (B6 * B6)) 12)) 11;
          X2 = spec_asr (spec_wrap_int32 (sint (ac2 c) * B6)) 11;
          X3 = spec_wrap_int32 (X1 + X2)
      in spec_asr (spec_wrap_int32
           (spec_wrap_int32 (spec_wrap_int32 (spec_wrap_int32 (sint (ac1 c) * 4) + X3) * 2 ^ s) + 2)) 2)"

text \<open>Steps 6 and 7.\<close>

definition spec_B4 :: "calibrationCoefficients \<Rightarrow> int \<Rightarrow> int" where
  "spec_B4 c rt =
     (let B6 = spec_B6 c rt;
          X1 = spec_asr (spec_wrap_int32 (sint (ac3 c) * B6)) 13;
          X2 = spec_asr (spec_wrap_int32 (sint (b1 c) * spec_asr (spec_wrap_int32 (B6 * B6)) 12)) 16;
          X3 = spec_asr (spec_wrap_int32 (spec_wrap_int32 (X1 + X2) + 2)) 2
      in spec_wrap_uint32 (uint (ac4 c) * spec_wrap_uint32 (spec_wrap_int32 (X3 + 32768))) div 2 ^ 15)"

text \<open>Step 8.\<close>

definition spec_B7 :: "calibrationCoefficients \<Rightarrow> nat \<Rightarrow> int \<Rightarrow> int \<Rightarrow> int" where
  "spec_B7 c s rt rp =
     spec_wrap_uint32 (spec_wrap_int32 (rp - spec_B3 c s rt) * (50000 div 2 ^ s))"

definition spec_P :: "calibrationCoefficients \<Rightarrow> nat \<Rightarrow> int \<Rightarrow> int \<Rightarrow> int" where
  "spec_P c s rt rp =
     (let B4 = spec_B4 c rt; B7 = spec_B7 c s rt rp
      in spec_wrap_int32
           (if B7 < 0x80000000 then spec_trunc_div (spec_wrap_uint32 (B7 * 2)) B4
            else spec_wrap_uint32 (spec_trunc_div B7 B4 * 2)))"

text \<open>Steps 9 and 10.\<close>

definition spec_Pressure :: "calibrationCoefficients \<Rightarrow> nat \<Rightarrow> int \<Rightarrow> int \<Rightarrow> float32" where
  "spec_Pressure c s rt rp =
     (let P = spec_P c s rt rp;
          X1 = spec_wrap_int32 (spec_asr P 8 * spec_asr P 8);
          X1 = spec_asr (spec_wrap_int32 (X1 * 3038)) 16;
          X2 = spec_asr (spec_wrap_int32 (- 7357 * P)) 16
      in float32_round
           (spec_wrap_int32 (P + spec_asr (spec_wrap_int32 (spec_wrap_int32 (X1 + X2) + 3791)) 4)) 1)"

subsection \<open>Reference data\<close>

text \<open>The calibration values of the manufacturer's worked example.\<close>

definition refCoefficients :: calibrationCoefficients where
  "refCoefficients =
     \<lparr>ac1 = 408, ac2 = - 72, ac3 = - 14383, ac4 = 32741, ac5 = 32757, ac6 = 23153,
      b1 = 6190, b2 = 4, mb = - 32767, mc = - 8711, md = 2868\<rparr>"

text \<open>Their 22 bytes, each value big-endian.\<close>

definition refBlock :: "byte list" where
  "refBlock =
     [0x01, 0x98, 0xFF, 0xB8, 0xC7, 0xD1, 0x7F, 0xE5, 0x7F, 0xF5, 0x5A, 0x71,
      0x18, 0x2E, 0x00, 0x04, 0x80, 0x01, 0xDD, 0xF9, 0x0B, 0x34]"

text \<open>
  A simulated device: every call succeeds, a read of 22 bytes returns \<open>refBlock\<close>, a read
  of 2 bytes the raw temperature 27898 and a read of 3 bytes the raw pressure 23843
  (for a shift amount of 0).
\<close>

definition simConn :: I2c where
  "simConn =
     \<lparr>I2cStart_result = (\<lambda>tr a. None),
      I2cWrite_result = (\<lambda>tr a bs. None),
      I2cRead_result = (\<lambda>tr a n.
         if n = 22 then Inr refBlock else if n = 2 then Inr [0x6C, 0xFA] else Inr [0x5D, 0x23, 0x00])\<rparr>"

text \<open>The same device with a bus on which every write to the control register fails.\<close>

definition noCtlConn :: I2c where
  "noCtlConn =
     simConn\<lparr>I2cWrite_result := (\<lambda>tr a bs.
        if take 1 bs = [bmp180RegisterCtl] then Some (Error ''write failed'') else None)\<rparr>"

text \<open>The same device with a bus on which starting a pressure measurement fails.\<close>

definition noPressureConn :: I2c where
  "noPressureConn =
     simConn\<lparr>I2cWrite_result := (\<lambda>tr a bs.
        if bs = [bmp180RegisterCtl, bmp180CmdPressure] then Some (Error ''write failed'') else None)\<rparr>"

text \<open>The same device with a bus on which every read fails.\<close>

definition noReadConn :: I2c where
  "noReadConn = simConn\<lparr>I2cRead_result := (\<lambda>tr a n. Inl (Error ''read failed''))\<rparr>"

text \<open>A calibrated device on the simulated bus, in the mode of shift amount 0.\<close>

definition refDriver :: BMP180Driver where
  "refDriver =
     (NewBMP180Driver simConn BMP180UltraLowPower [])\<lparr>calibrationCoefficients := refCoefficients\<rparr>"

subsection \<open>The acquisition protocol as the specification words it\<close>

text \<open>
  A big-endian 16-bit word of two bytes, its two's-complement reading, and the 24-bit
  quantity \<open>(byte0 << 16) | (byte1 << 8) | byte2\<close>.
\<close>

definition spec_be16 :: "byte \<Rightarrow> byte \<Rightarrow> int" where
  "spec_be16 hi lo = 256 * uint hi + uint lo"

definition spec_signed16 :: "int \<Rightarrow> int" where
  "spec_signed16 v = (if v < 32768 then v else v - 65536)"

definition spec_raw24 :: "byte \<Rightarrow> byte \<Rightarrow> byte \<Rightarrow> int" where
  "spec_raw24 x0 x1 x2 = push_bit 16 (uint x0) OR push_bit 8 (uint x1) OR uint x2"

text \<open>The command byte \<open>pressureCommand | (mode.shiftAmount << 6)\<close>.\<close>

definition spec_pressureCommand :: "OversamplingMode \<Rightarrow> byte" where
  "spec_pressureCommand m = 0x34 OR push_bit 6 (of_nat (shiftAmount m))"

text \<open>
  The bus traffic of one temperature sample and of one pressure sample: the command
  to the control register \<open>0xF4\<close>, the wait, the address of the result register
  \<open>0xF6\<close>, the read.
\<close>

definition spec_tempTrace :: "event list" where
  "spec_tempTrace =
     [EvWrite 0x77 [0xF4, 0x2E], EvSleep (5 * Millisecond), EvWrite 0x77 [0xF6], EvRead 0x77 2]"

definition spec_pressureTrace :: "OversamplingMode \<Rightarrow> event list" where
  "spec_pressureTrace m =
     [EvWrite 0x77 [0xF4, spec_pressureCommand m], EvSleep (of_nat (settleTime m) * Millisecond),
      EvWrite 0x77 [0xF6], EvRead 0x77 3]"

text \<open>The errors that reached the error sink, and the waits, in a trace.\<close>

fun published :: "event list \<Rightarrow> error list" where
  "published [] = []"
| "published (EvPublish e # evs) = e # published evs"
| "published (_ # evs) = published evs"

fun sleeps :: "event list \<Rightarrow> Duration list" where
  "sleeps [] = []"
| "sleeps (EvSleep t # evs) = t # sleeps evs"
| "sleeps (_ # evs) = sleeps evs"

section \<open>The reference vector\<close>

lemma float32_of_int32_150: "float32_of_int32 150 = Float32 9830400 (- 16)"
  by (simp add: float32_of_int32_def float32_round_def bit_length.simps round_half_even_def Let_def)

lemma float32_of_const_10: "float32_of_const 10 = Float32 10485760 (- 20)"
  by (simp add: float32_of_const_def float32_round_def bit_length.simps round_half_even_def Let_def)

lemma float32_div_150_10:
  "float32_div (Float32 9830400 (- 16)) (Float32 10485760 (- 20)) = Float32 15728640 (- 20)"
  by (simp add: float32_div_def float32_round_def bit_length.simps round_half_even_def Let_def)

lemma float32_of_int32_69964: "float32_of_int32 69964 = Float32 8955392 (- 7)"
  by (simp add: float32_of_int32_def float32_round_def bit_length.simps round_half_even_def Let_def)

lemma calculateB5_ref:
  "calibrationCoefficients d = refCoefficients \<Longrightarrow> calculateB5 d 27898 = Inr 2400"
  by (simp add: calculateB5_def refCoefficients_def div_int32_def signed_divide_int_def)

lemma calculateTemp_ref:
  "calibrationCoefficients d = refCoefficients \<Longrightarrow>
   calculateTemp d 27898 = Inr (Float32 15728640 (- 20))"
  by (simp add: calculateTemp_def calculateB5_ref float32_of_int32_150 float32_of_const_10
      float32_div_150_10)

lemma calculatePressure_ref:
  "calibrationCoefficients d = refCoefficients \<Longrightarrow> mode d = BMP180UltraLowPower \<Longrightarrow>
   calculatePressure d 27898 23843 = Inr (Float32 8955392 (- 7))"
  by (simp add: calculatePressure_def calculateB5_ref refCoefficients_def BMP180UltraLowPower_def
        div_uint32_def float32_of_int32_69964)

text \<open>
  Claim C2. With the calibration values of the worked example, the mode of shift amount 0,
  the raw temperature 27898 and the raw pressure 23843, \<open>calculateTemp\<close> returns the
  \<open>float32\<close> of value 15 and \<open>calculatePressure\<close> the \<open>float32\<close> of value 69964,
  whatever the other fields of the device are.
\<close>

theorem reference_vector:
  "map_sum id float32_value
     (calculateTemp (d\<lparr>calibrationCoefficients := refCoefficients, mode := BMP180UltraLowPower\<rparr>) 27898)
     = Inr 15
   \<and> map_sum id float32_value
     (calculatePressure (d\<lparr>calibrationCoefficients := refCoefficients, mode := BMP180UltraLowPower\<rparr>)
        27898 23843)
     = Inr 69964"
  by (simp add: calculateTemp_ref calculatePressure_ref float32_value_def)

section \<open>The constructor\<close>

text \<open>
  Claim C10. \<open>NewBMP180Driver\<close> sets the polling interval to 10 ms (10000000 ns) when
  no duration is given and to the first duration when some are given; the name is
  \<open>BMP180\<close>, and the mode and the connection are the arguments.
\<close>

theorem NewBMP180Driver_fields:
  "interval (NewBMP180Driver c m []) = 10 * Millisecond
   \<and> unat (10 * Millisecond) = 10 * 1000000
   \<and> interval (NewBMP180Driver c m (t # ts)) = t
   \<and> name (NewBMP180Driver c m i) = ''BMP180''
   \<and> mode (NewBMP180Driver c m i) = m
   \<and> connection (NewBMP180Driver c m i) = c"
  by (simp add: NewBMP180Driver_def Millisecond_def Let_def)

section \<open>The compensation engine computes the algorithm of the specification\<close>

text \<open>The signed and the unsigned reading of each word operation of the engine.\<close>

lemma spec_wrap_int32_eq: "spec_wrap_int32 x = signed_take_bit 31 x"
  by (simp add: spec_wrap_int32_def signed_take_bit_eq_take_bit_shift take_bit_eq_mod)

lemma spec_wrap_uint32_eq: "spec_wrap_uint32 x = take_bit 32 x"
  by (simp add: spec_wrap_uint32_def take_bit_eq_mod)

lemma sint_add32: "sint (a + b :: 32 word) = spec_wrap_int32 (sint a + sint b)"
  by (simp add: spec_wrap_int32_eq sint_word_ariths)

lemma sint_sub32: "sint (a - b :: 32 word) = spec_wrap_int32 (sint a - sint b)"
  by (simp add: spec_wrap_int32_eq sint_word_ariths)

lemma sint_mult32: "sint (a * b :: 32 word) = spec_wrap_int32 (sint a * sint b)"
  by (simp add: spec_wrap_int32_eq sint_word_ariths)

lemma sint_asr32: "sint (signed_drop_bit n (a :: 32 word)) = spec_asr (sint a) n"
  by (simp add: spec_asr_def sint_signed_drop_bit_eq drop_bit_eq_div)

lemma sint_push_bit32: "sint (push_bit n (a :: 32 word)) = spec_wrap_int32 (sint a * 2 ^ n)"
  by (simp add: spec_wrap_int32_eq signed_push_bit_eq push_bit_eq_mult [where ?'a = int])

lemma sint_scast16: "sint (scast (a :: 16 word) :: 32 word) = sint a"
  by (simp add: sint_up_scast is_up)

lemma sint_ucast16: "sint (ucast (a :: 16 word) :: 32 word) = uint a"
proof -
  have hi: "uint a < 2 ^ 31" using uint_lt2p [of a] by simp
  have "(0::int) \<le> uint a" by simp
  then have lo: "- (2 ^ 31) \<le> uint a" by (rule order_trans [rotated]) simp
  from lo hi have "- (2 ^ 31) \<le> uint a \<and> uint a < 2 ^ 31" ..
  then have "signed_take_bit 31 (uint a) = uint a"
    by (simp add: signed_take_bit_int_eq_self_iff)
  then show ?thesis by (simp add: signed_ucast_eq)
qed

lemma sint_of_int32: "sint (word_of_int x :: 32 word) = spec_wrap_int32 x"
  by (simp add: spec_wrap_int32_eq sint_sbintrunc')

lemma uint_sint32: "uint (a :: 32 word) = spec_wrap_uint32 (sint a)"
  using uint_sint [of a] by (simp add: spec_wrap_uint32_eq)

lemma uint_mult32: "uint (a * b :: 32 word) = spec_wrap_uint32 (uint a * uint b)"
  by (simp add: spec_wrap_uint32_def uint_word_ariths)

lemma uint_ucast16: "uint (ucast (a :: 16 word) :: 32 word) = uint a"
  by (simp add: uint_up_ucast is_up)

lemma uint_drop_bit32: "uint (drop_bit n (a :: 32 word)) = uint a div 2 ^ n"
proof -
  have "take_bit 32 (uint a) = uint a"
    using uint_lt2p [of a] by (intro take_bit_int_eq_self) simp_all
  then show ?thesis
    by (simp add: unsigned_drop_bit_eq drop_bit_eq_div [where ?'a = int])
qed

lemma uint_push_bit32: "uint (push_bit n (a :: 32 word)) = spec_wrap_uint32 (uint a * 2 ^ n)"
  by (simp add: spec_wrap_uint32_eq unsigned_push_bit_eq push_bit_eq_mult [where ?'a = int])

lemma sint_uint32: "sint (a :: 32 word) = spec_wrap_int32 (uint a)"
  by (simp add: spec_wrap_int32_eq sint_uint)

lemma spec_trunc_div_nonneg: "0 \<le> a \<Longrightarrow> 0 \<le> b \<Longrightarrow> spec_trunc_div a b = a div b"
  by (cases "a = 0"; cases "b = 0") (simp_all add: spec_trunc_div_def)


lemmas sint32_simps = sint_add32 sint_sub32 sint_mult32 sint_asr32 sint_push_bit32
  sint_scast16 sint_ucast16 sint_of_int32

lemma calculateB5_spec:
  assumes "spec_divisor1 (calibrationCoefficients d) (sint rt) \<noteq> 0"
  shows "\<exists>b5. calculateB5 d rt = Inr b5 \<and> sint b5 = spec_B5 (calibrationCoefficients d) (sint rt)"
proof -
  let ?c = "calibrationCoefficients d"
  let ?x1 = "signed_drop_bit 15 ((scast rt - ucast (ac6 ?c)) * ucast (ac5 ?c)) :: 32 word"
  have x1: "sint ?x1 = spec_X1 ?c (sint rt)"
    by (simp add: spec_X1_def sint32_simps)
  have dv: "sint (?x1 + scast (md ?c)) = spec_divisor1 ?c (sint rt)"
    by (simp only: sint_add32 x1 sint_scast16 spec_divisor1_def)
  with assms have nz: "?x1 + scast (md ?c) \<noteq> 0"
    by (metis sint_0)
  have "calculateB5 d rt =
      Inr (?x1 + word_of_int (sint (push_bit 11 (scast (mc ?c) :: 32 word)) sdiv sint (?x1 + scast (md ?c))))"
    using nz by (simp add: calculateB5_def div_int32_def Let_def)
  moreover have "sint (?x1 + word_of_int (sint (push_bit 11 (scast (mc ?c) :: 32 word)) sdiv sint (?x1 + scast (md ?c))))
     = spec_B5 ?c (sint rt)"
    by (simp only: sint_add32 sint_of_int32 x1 sint_push_bit32 sint_scast16 spec_B5_def Let_def
        spec_trunc_div_def signed_divide_int_def spec_divisor1_def)
  ultimately show ?thesis by blast
qed

lemma calculateTemp_spec:
  assumes "spec_divisor1 (calibrationCoefficients d) (sint rt) \<noteq> 0"
  shows "calculateTemp d rt = Inr (spec_Temperature (calibrationCoefficients d) (sint rt))"
proof -
  from calculateB5_spec [OF assms] obtain b5 where
    b5: "calculateB5 d rt = Inr b5" "sint b5 = spec_B5 (calibrationCoefficients d) (sint rt)"
    by blast
  have "sint (signed_drop_bit 4 (b5 + 8)) =
      spec_asr (spec_wrap_int32 (spec_B5 (calibrationCoefficients d) (sint rt) + 8)) 4"
    by (simp add: sint_asr32 sint_add32 b5)
  then show ?thesis
    by (simp add: calculateTemp_def b5 spec_Temperature_def float32_of_int32_def)
qed


lemma P_spec:
  fixes b7 b4 :: "32 word"
  shows "sint (if b7 < 0x80000000 then push_bit 1 b7 div b4 else push_bit 1 (b7 div b4)) =
     spec_wrap_int32
       (if uint b7 < 0x80000000 then spec_trunc_div (spec_wrap_uint32 (uint b7 * 2)) (uint b4)
        else spec_wrap_uint32 (spec_trunc_div (uint b7) (uint b4) * 2))"
proof -
  have c: "b7 < 0x80000000 \<longleftrightarrow> uint b7 < 0x80000000"
    by (simp add: word_less_alt)
  have w: "0 \<le> spec_wrap_uint32 x" for x
    by (simp add: spec_wrap_uint32_def)
  have t: "sint (push_bit 1 b7 div b4) =
      spec_wrap_int32 (spec_trunc_div (spec_wrap_uint32 (uint b7 * 2)) (uint b4))"
    by (simp only: sint_uint32 [of "push_bit 1 b7 div b4"] uint_div uint_push_bit32
        spec_trunc_div_nonneg w uint_nonnegative power_one_right)
  have e: "sint (push_bit 1 (b7 div b4)) =
      spec_wrap_int32 (spec_wrap_uint32 (spec_trunc_div (uint b7) (uint b4) * 2))"
    by (simp only: sint_uint32 [of "push_bit 1 (b7 div b4)"] uint_div uint_push_bit32
        spec_trunc_div_nonneg uint_nonnegative power_one_right)
  show ?thesis
    by (simp only: c t e if_distrib [of sint] if_distrib [of spec_wrap_int32])
qed

lemma sint_mult_const32:
  "sint (- (7357 * p) :: 32 word) = spec_wrap_int32 (- (7357 * sint p))"
proof -
  have "sint ((- 7357) * p) = spec_wrap_int32 (sint (- 7357 :: 32 word) * sint p)"
    by (rule sint_mult32)
  then show ?thesis by simp
qed

lemma spec_wrap_uint32_mult_left:
  "spec_wrap_uint32 (spec_wrap_uint32 x * y) = spec_wrap_uint32 (x * y)"
  by (simp add: spec_wrap_uint32_def mod_mult_left_eq)

lemma calculatePressure_spec:
  assumes d1: "spec_divisor1 (calibrationCoefficients d) (sint rt) \<noteq> 0"
    and d2: "spec_B4 (calibrationCoefficients d) (sint rt) \<noteq> 0"
  shows "calculatePressure d rt rp =
     Inr (spec_Pressure (calibrationCoefficients d) (unat (mode d)) (sint rt) (sint rp))"
proof -
  let ?c = "calibrationCoefficients d"
  let ?s = "unat (mode d)"
  from calculateB5_spec [OF d1] obtain b5 where
    b5: "calculateB5 d rt = Inr b5" and sb5: "sint b5 = spec_B5 ?c (sint rt)"
    by blast
  define b6 where "b6 = b5 - 4000"
  define b3 where "b3 = signed_drop_bit 2 (push_bit ?s (scast (ac1 ?c) * 4
      + (signed_drop_bit 11 (scast (b2 ?c) * signed_drop_bit 12 (b6 * b6))
         + signed_drop_bit 11 (scast (ac2 ?c) * b6))) + 2)"
  define b4 where "b4 = drop_bit 15 (ucast (ac4 ?c) * (signed_drop_bit 2
      ((signed_drop_bit 13 (scast (ac3 ?c) * b6)
         + signed_drop_bit 16 (scast (b1 ?c) * signed_drop_bit 12 (b6 * b6))) + 2) + 32768))"
  define b7 where "b7 = (rp - b3) * drop_bit ?s 50000"
  define p where "p = (if b7 < 0x80000000 then push_bit 1 b7 div b4 else push_bit 1 (b7 div b4))"
  have sb6: "sint b6 = spec_B6 ?c (sint rt)"
    by (simp add: b6_def spec_B6_def sint_sub32 sb5)
  have sb3: "sint b3 = spec_B3 ?c ?s (sint rt)"
    by (simp add: b3_def spec_B3_def Let_def sint32_simps sb6)
  have ub4: "uint b4 = spec_B4 ?c (sint rt)"
    by (simp add: b4_def spec_B4_def Let_def uint_drop_bit32 uint_mult32 uint_ucast16
        uint_sint32 [of "_ + 32768"] sint32_simps sb6)
  have "uint (drop_bit ?s (50000 :: 32 word)) = 50000 div 2 ^ ?s"
    by (simp add: uint_drop_bit32)
  then have ub7: "uint b7 = spec_B7 ?c ?s (sint rt) (sint rp)"
    by (simp add: b7_def spec_B7_def uint_mult32 uint_sint32 [of "rp - b3"] sint_sub32 sb3
        spec_wrap_uint32_mult_left)
  from d2 ub4 have nz: "b4 \<noteq> 0"
    by (metis uint_0_eq)
  have sp: "sint p = spec_P ?c ?s (sint rt) (sint rp)"
    unfolding p_def P_spec by (simp add: spec_P_def Let_def ub4 ub7)
  have "calculatePressure d rt rp =
      Inr (float32_of_int32 (p + signed_drop_bit 4
        (signed_drop_bit 16 (signed_drop_bit 8 p * signed_drop_bit 8 p * 3038)
           + signed_drop_bit 16 (- 7357 * p) + 3791)))"
    using nz unfolding p_def b7_def b4_def b3_def b6_def
    by (simp add: calculatePressure_def b5 Let_def div_uint32_def)
  moreover have "float32_of_int32 (p + signed_drop_bit 4
        (signed_drop_bit 16 (signed_drop_bit 8 p * signed_drop_bit 8 p * 3038)
           + signed_drop_bit 16 (- 7357 * p) + 3791))
      = spec_Pressure ?c ?s (sint rt) (sint rp)"
    by (simp add: float32_of_int32_def spec_Pressure_def Let_def sint32_simps sint_mult_const32 sp)
  ultimately show ?thesis by simp
qed


lemma unat_mode_value: "unat (mode_value m) = shiftAmount m"
  by (cases m)
    (simp_all add: BMP180UltraLowPower_def BMP180Standard_def BMP180HighResolution_def
      BMP180UltraHighResolution_def)

lemma spec_divisor1_ref: "spec_divisor1 refCoefficients 27898 = 7611"
  by (simp add: spec_divisor1_def spec_X1_def spec_wrap_int32_def spec_asr_def refCoefficients_def)

lemma spec_B5_ref: "spec_B5 refCoefficients 27898 = 2400"
  unfolding spec_B5_def Let_def spec_divisor1_ref
  by (simp add: spec_X1_def spec_wrap_int32_def spec_asr_def spec_trunc_div_def refCoefficients_def)

lemma spec_B4_ref: "spec_B4 refCoefficients 27898 = 33457"
  unfolding spec_B4_def Let_def spec_B6_def spec_B5_ref
  by (simp add: spec_wrap_int32_def spec_wrap_uint32_def spec_asr_def refCoefficients_def)

text \<open>
  Claim C1. For every calibration record, raw temperature, raw pressure and each of the
  four modes, when the divisors \<open>X1 + md\<close> of step 1 and \<open>B4\<close> of step 8 are not zero,
  \<open>calculateTemp\<close> and \<open>calculatePressure\<close> return the values of the ten steps of
  section 4.3 computed on integers with 32-bit wrap-around, floor shifts and
  truncating division.
\<close>

theorem compensation_refines_spec:
  assumes "mode d = mode_value m"
    and "spec_divisor1 (calibrationCoefficients d) (sint rt) \<noteq> 0"
    and "spec_B4 (calibrationCoefficients d) (sint rt) \<noteq> 0"
  shows "calculateTemp d rt = Inr (spec_Temperature (calibrationCoefficients d) (sint rt))
    \<and> calculatePressure d rt rp =
        Inr (spec_Pressure (calibrationCoefficients d) (shiftAmount m) (sint rt) (sint rp))"
  using assms calculateTemp_spec [of d rt] calculatePressure_spec [of d rt rp]
  by (simp add: unat_mode_value)

theorem compensation_refines_spec_witness:
  "mode refDriver = mode_value UltraLowPower
   \<and> spec_divisor1 (calibrationCoefficients refDriver) (sint (27898 :: int16)) \<noteq> 0
   \<and> spec_B4 (calibrationCoefficients refDriver) (sint (27898 :: int16)) \<noteq> 0
   \<and> calculateTemp refDriver 27898 = Inr (spec_Temperature refCoefficients 27898)
   \<and> calculatePressure refDriver 27898 23843 = Inr (spec_Pressure refCoefficients 0 27898 23843)"
proof -
  have c: "calibrationCoefficients refDriver = refCoefficients"
    by (simp add: refDriver_def)
  have m: "mode refDriver = mode_value UltraLowPower"
    by (simp add: refDriver_def NewBMP180Driver_def)
  have d1: "spec_divisor1 (calibrationCoefficients refDriver) (sint (27898 :: int16)) \<noteq> 0"
    by (simp add: c spec_divisor1_ref)
  have d2: "spec_B4 (calibrationCoefficients refDriver) (sint (27898 :: int16)) \<noteq> 0"
    by (simp add: c spec_B4_ref)
  show ?thesis
    using compensation_refines_spec [OF m d1 d2, of 23843] m d1 d2 by (simp add: c)
qed


end
